theory Spec2Isabelle
  imports Complex_Main
begin

section \<open>The nRF Cloud webhook handler of \<^verbatim>\<open>src/index.js\<close>\<close>

text \<open>
  The repository is one asynchronous function, the export of \<^verbatim>\<open>src/index.js\<close>. It is
  embedded here as the function \<open>handler\<close>: it takes the process environment and the request
  and returns how the invocation ends (the response passed to \<^verbatim>\<open>res.send\<close>, or the
  exception that leaves the function) together with the list of effects in the order the
  code performs them.
\<close>

subsection \<open>Values\<close>

text \<open>
  What \<^verbatim>\<open>JSON.parse\<close> returns: \<^verbatim>\<open>null\<close>, a boolean, a number, a string, an array or
  an object. A number is a double; \<^verbatim>\<open>JSON.parse\<close> never yields NaN, and plus and minus
  zero behave alike in every operation of the handler, so a number is a rational or one of
  the two infinities (\<^verbatim>\<open>JSON.parse('1e999')\<close>). An object is the list of its own
  properties, read with \<open>map_of\<close>. A JavaScript value that may also be \<^verbatim>\<open>undefined\<close> is a
  \<open>json option\<close>, with \<open>None\<close> for \<^verbatim>\<open>undefined\<close>.
\<close>

datatype jsnumber = Finite rat | PosInf | NegInf

datatype json =
    JNull
  | JBool bool
  | JNum jsnumber
  | JStr string
  | JArr "json list"
  | JObj "(string \<times> json) list"

type_synonym jsvalue = "json option"

text \<open>
  What a \<^verbatim>\<open>throw\<close> carries: a \<^verbatim>\<open>TypeError\<close> of the language, the rejection of
  the store's \<^verbatim>\<open>createDocument\<close> promise, or the \<^verbatim>\<open>AppwriteException\<close> with which
  the SDK refuses a setting of the client. \<open>message_of\<close> is \<^verbatim>\<open>e.message\<close>; the message
  of a TypeError stands for the text the engine gives it.
\<close>

datatype exn = TypeError string | Rejected string | AppwriteException string

fun message_of :: "exn \<Rightarrow> string" where
  "message_of (TypeError m) = m"
| "message_of (Rejected m) = m"
| "message_of (AppwriteException m) = m"

text \<open>
  \<^verbatim>\<open>x.name\<close> for the property names the handler reads (\<^verbatim>\<open>event\<close>, \<^verbatim>\<open>token\<close>,
  \<^verbatim>\<open>messages\<close>, \<^verbatim>\<open>device_id\<close>, \<^verbatim>\<open>appId\<close>, \<^verbatim>\<open>ts\<close>, \<^verbatim>\<open>payload\<close>): reading a
  property of \<^verbatim>\<open>null\<close> throws a TypeError, an object gives its own property or
  \<^verbatim>\<open>undefined\<close>, and a boolean, number, string or array has none of these names on its
  prototype, so the read gives \<^verbatim>\<open>undefined\<close>.
\<close>

fun getProp :: "json \<Rightarrow> string \<Rightarrow> exn + jsvalue" where
  "getProp JNull k = Inl (TypeError ''Cannot read properties of null'')"
| "getProp (JObj kvs) k = Inr (map_of kvs k)"
| "getProp v k = Inr None"

text \<open>
  The conversion to a string that a template literal applies to each substitution
  (ToString of the language). A number is printed by the language's number-to-string
  algorithm, a parameter here. An array is joined with commas (\<^verbatim>\<open>Array.prototype.join\<close>),
  \<^verbatim>\<open>null\<close> elements printing as the empty string. An object is converted by
  OrdinaryToPrimitive, which calls its \<^verbatim>\<open>toString\<close> and then its \<^verbatim>\<open>valueOf\<close>, each
  only if it can be called, and throws a TypeError when neither gives a primitive value.
  An object read from JSON inherits \<^verbatim>\<open>Object.prototype.toString\<close> and prints as
  \<^verbatim>\<open>[object Object]\<close>, unless it has an own property \<^verbatim>\<open>toString\<close>: that holds a JSON
  value, which cannot be called, and \<^verbatim>\<open>valueOf\<close> gives back the object itself at best,
  so the conversion throws.
\<close>

fun ToString :: "(jsnumber \<Rightarrow> string) \<Rightarrow> json \<Rightarrow> exn + string"
  and join :: "(jsnumber \<Rightarrow> string) \<Rightarrow> json list \<Rightarrow> exn + string" where
  "ToString nts JNull = Inr ''null''"
| "ToString nts (JBool b) = Inr (if b then ''true'' else ''false'')"
| "ToString nts (JNum n) = Inr (nts n)"
| "ToString nts (JStr s) = Inr s"
| "ToString nts (JArr xs) = join nts xs"
| "ToString nts (JObj kvs) =
     (if map_of kvs ''toString'' = None then Inr ''[object Object]''
      else Inl (TypeError ''Cannot convert object to primitive value''))"
| "join nts [] = Inr ''''"
| "join nts (x # xs) =
     (case (if x = JNull then Inr '''' else ToString nts x) of
        Inl e \<Rightarrow> Inl e
      | Inr s \<Rightarrow>
          (if xs = [] then Inr s
           else (case join nts xs of Inl e \<Rightarrow> Inl e | Inr r \<Rightarrow> Inr (s @ '','' @ r))))"

fun interpolate :: "(jsnumber \<Rightarrow> string) \<Rightarrow> jsvalue \<Rightarrow> exn + string" where
  "interpolate nts None = Inr ''undefined''"
| "interpolate nts (Some v) = ToString nts v"

text \<open>Truthiness, as \<^verbatim>\<open>!x\<close> and \<^verbatim>\<open>x || y\<close> test it.\<close>

fun ToBoolean :: "jsvalue \<Rightarrow> bool" where
  "ToBoolean None = False"
| "ToBoolean (Some JNull) = False"
| "ToBoolean (Some (JBool b)) = b"
| "ToBoolean (Some (JNum n)) = (n \<noteq> Finite 0)"
| "ToBoolean (Some (JStr s)) = (s \<noteq> [])"
| "ToBoolean (Some (JArr xs)) = True"
| "ToBoolean (Some (JObj kvs)) = True"

text \<open>
  An environment variable or a header is a string or \<^verbatim>\<open>undefined\<close>; \<^verbatim>\<open>!x\<close> holds of
  \<^verbatim>\<open>undefined\<close> and of the empty string.
\<close>

fun falsy :: "string option \<Rightarrow> bool" where
  "falsy None = True"
| "falsy (Some s) = (s = [])"

text \<open>The decimal digits of an array length, as a template literal prints it.\<close>

fun showNat :: "nat \<Rightarrow> string" where
  "showNat n =
     (if n < 10 then [''0123456789'' ! n]
      else showNat (n div 10) @ [''0123456789'' ! (n mod 10)])"

declare showNat.simps [simp del]

subsection \<open>The request, the host and the effects\<close>

text \<open>
  The WebhookRequest of the data model: the method, the headers by name, and the raw body
  as the string it was received as. (\<open>method'\<close> is \<^verbatim>\<open>req.method\<close>.)
\<close>

record request =
  method' :: string
  headers :: "string \<rightharpoonup> string"
  body :: string

text \<open>
  The functions the handler calls and does not define. \<open>hmacSha256Hex k b\<close> is
  \<^verbatim>\<open>crypto.createHmac('sha256', k).update(b).digest('hex')\<close>. \<open>JSON_parse\<close> gives
  \<open>Inl\<close> of the message of the SyntaxError it throws. \<open>JSON_stringify\<close> is applied to
  values read from JSON only, where it returns a string. \<open>createDocument k\<close> is the
  call that the loop makes to the store for the message at position \<open>k\<close> of the batch
  (counted from 0), with its four arguments: \<open>None\<close> when the promise resolves,
  \<open>Some m\<close> when the call throws or the promise rejects with an error of message \<open>m\<close>;
  the store may answer each call as it likes. \<open>setEndpoint\<close>, \<open>setProject\<close> and
  \<open>setKey\<close> are the setters of the SDK's client, applied to the value of an environment
  variable, which may be \<^verbatim>\<open>undefined\<close>: \<open>None\<close> when the setter returns the client,
  \<open>Some e\<close> when it throws \<open>e\<close>, as \<^verbatim>\<open>setEndpoint\<close> does in the versions of the SDK that
  validate the endpoint.
\<close>

type_synonym fields = "(string \<times> jsvalue) list"

record host =
  hmacSha256Hex :: "string \<Rightarrow> string \<Rightarrow> string"
  JSON_parse :: "string \<Rightarrow> string + json"
  JSON_stringify :: "json \<Rightarrow> string"
  Number_toString :: "jsnumber \<Rightarrow> string"
  createDocument :: "nat \<Rightarrow> string \<Rightarrow> string \<Rightarrow> string \<Rightarrow> fields \<Rightarrow> string option"
  setEndpoint :: "string option \<Rightarrow> exn option"
  setProject :: "string option \<Rightarrow> exn option"
  setKey :: "string option \<Rightarrow> exn option"

text \<open>
  The effects of an invocation: reading a variable of \<^verbatim>\<open>process.env\<close>, the two loggers,
  the steps of the construction of the database client (the two constructors and the calls
  of the three setters, each with its argument), and a call of \<^verbatim>\<open>createDocument\<close> with
  its arguments.
\<close>

datatype event =
    EnvRead string
  | Log string
  | ErrorLog string
  | NewClient
  | SetEndpoint "string option"
  | SetProject "string option"
  | SetKey "string option"
  | NewDatabases
  | CreateDocument string string string fields

text \<open>
  An invocation ends with \<^verbatim>\<open>return res.send(body, status)\<close> or with an exception that
  nothing catches, which rejects the promise of the asynchronous function.
\<close>

datatype outcome = Sent string nat | Thrown exn

subsection \<open>The persistence writer (lines 56 to 96)\<close>

text \<open>\<^verbatim>\<open>JSON.stringify(payloadData)\<close>; of \<^verbatim>\<open>undefined\<close> it is \<^verbatim>\<open>undefined\<close>.\<close>

fun stringify :: "host \<Rightarrow> jsvalue \<Rightarrow> jsvalue" where
  "stringify h None = None"
| "stringify h (Some v) = Some (JStr (JSON_stringify h v))"

text \<open>
  The body of the \<^verbatim>\<open>try\<close> block for the message at position \<open>i\<close> (lines 69 to 87):
  \<open>None\<close> when it completes, \<open>Some e\<close> when it throws \<open>e\<close>.
\<close>

definition tryStore :: "host \<Rightarrow> string \<Rightarrow> string \<Rightarrow> nat \<Rightarrow> json \<Rightarrow> exn option \<times> event list" where
  "tryStore h databaseId collectionId i message =
     (case getProp message ''device_id'' of Inl e \<Rightarrow> (Some e, []) | Inr deviceId \<Rightarrow>
      (case getProp message ''appId'' of Inl e \<Rightarrow> (Some e, []) | Inr messageType \<Rightarrow>
      (case getProp message ''ts'' of Inl e \<Rightarrow> (Some e, []) | Inr timestamp \<Rightarrow>
      (case getProp message ''payload'' of Inl e \<Rightarrow> (Some e, []) | Inr payloadData \<Rightarrow>
       (let data = [(''deviceId'', deviceId), (''appId'', messageType),
                    (''timestamp'', timestamp), (''payload'', stringify h payloadData)];
            call = CreateDocument databaseId collectionId ''unique()'' data
        in (case createDocument h i databaseId collectionId ''unique()'' data of
              Some m \<Rightarrow> (Some (Rejected m), [call])
            | None \<Rightarrow>
                (case interpolate (Number_toString h) deviceId of
                   Inl e \<Rightarrow> (Some e, [call])
                 | Inr s \<Rightarrow>
                     (None, [call, Log (''Successfully stored message from device: '' @ s)]))))))))"

text \<open>
  \<^verbatim>\<open>message.device_id || 'unknown'\<close>, and the \<^verbatim>\<open>catch\<close> block (lines 89 to 92), which
  can throw in its turn.
\<close>

definition orUnknown :: "jsvalue \<Rightarrow> jsvalue" where
  "orUnknown d = (if ToBoolean d then d else Some (JStr ''unknown''))"

definition catchStore :: "host \<Rightarrow> json \<Rightarrow> exn \<Rightarrow> exn option \<times> event list" where
  "catchStore h message e =
     (case getProp message ''device_id'' of Inl e' \<Rightarrow> (Some e', []) | Inr d \<Rightarrow>
      (case interpolate (Number_toString h) (orUnknown d) of
         Inl e' \<Rightarrow> (Some e', [])
       | Inr s \<Rightarrow>
           (None, [ErrorLog (''Database error for message from '' @ s @ '': '' @ message_of e)])))"

text \<open>
  The \<^verbatim>\<open>for ... of\<close> loop over \<^verbatim>\<open>payload.messages\<close>, from position \<open>i\<close> on: an
  exception thrown by a \<^verbatim>\<open>catch\<close> block leaves the loop and the handler.
\<close>

fun forMessages :: "host \<Rightarrow> string \<Rightarrow> string \<Rightarrow> nat \<Rightarrow> json list \<Rightarrow> exn option \<times> event list" where
  "forMessages h databaseId collectionId i [] = (None, [])"
| "forMessages h databaseId collectionId i (message # rest) =
     (case tryStore h databaseId collectionId i message of
        (None, t) \<Rightarrow>
          (case forMessages h databaseId collectionId (Suc i) rest of (r, t') \<Rightarrow> (r, t @ t'))
      | (Some e, t) \<Rightarrow>
          (case catchStore h message e of
             (Some e', tc) \<Rightarrow> (Some e', t @ tc)
           | (None, tc) \<Rightarrow>
               (case forMessages h databaseId collectionId (Suc i) rest of
                  (r, t') \<Rightarrow> (r, t @ tc @ t'))))"

text \<open>
  Lines 60 to 65: the client is built from three more environment variables, which the
  handler reads without a test, in a chain of calls that is outside any \<^verbatim>\<open>try\<close>. A
  setter that throws ends the chain: \<open>Some e\<close> is the exception, and the effects are those
  up to the call that threw.
\<close>

definition newDatabases :: "host \<Rightarrow> (string \<rightharpoonup> string) \<Rightarrow> exn option \<times> event list" where
  "newDatabases h env =
     (case setEndpoint h (env ''APPWRITE_ENDPOINT'') of
        Some e \<Rightarrow>
          (Some e,
           [NewClient, EnvRead ''APPWRITE_ENDPOINT'', SetEndpoint (env ''APPWRITE_ENDPOINT'')])
      | None \<Rightarrow>
          (case setProject h (env ''APPWRITE_PROJECT_ID'') of
             Some e \<Rightarrow>
               (Some e,
                [NewClient, EnvRead ''APPWRITE_ENDPOINT'', SetEndpoint (env ''APPWRITE_ENDPOINT''),
                 EnvRead ''APPWRITE_PROJECT_ID'', SetProject (env ''APPWRITE_PROJECT_ID'')])
           | None \<Rightarrow>
               (case setKey h (env ''APPWRITE_API_KEY'') of
                  Some e \<Rightarrow>
                    (Some e,
                     [NewClient,
                      EnvRead ''APPWRITE_ENDPOINT'', SetEndpoint (env ''APPWRITE_ENDPOINT''),
                      EnvRead ''APPWRITE_PROJECT_ID'', SetProject (env ''APPWRITE_PROJECT_ID''),
                      EnvRead ''APPWRITE_API_KEY'', SetKey (env ''APPWRITE_API_KEY'')])
                | None \<Rightarrow>
                    (None,
                     [NewClient,
                      EnvRead ''APPWRITE_ENDPOINT'', SetEndpoint (env ''APPWRITE_ENDPOINT''),
                      EnvRead ''APPWRITE_PROJECT_ID'', SetProject (env ''APPWRITE_PROJECT_ID''),
                      EnvRead ''APPWRITE_API_KEY'', SetKey (env ''APPWRITE_API_KEY''),
                      NewDatabases]))))"

text \<open>
  Lines 56 to 99 once \<^verbatim>\<open>payload.messages\<close> has been read: the branch on
  \<^verbatim>\<open>Array.isArray(payload.messages) && payload.messages.length > 0\<close>, and the final
  response.
\<close>

definition persistenceWriter ::
  "host \<Rightarrow> (string \<rightharpoonup> string) \<Rightarrow> string \<Rightarrow> string \<Rightarrow> jsvalue \<Rightarrow> outcome \<times> event list" where
  "persistenceWriter h env databaseId collectionId messages =
     (case messages of
        Some (JArr ms) \<Rightarrow>
          (if length ms > 0 then
             (case newDatabases h env of
                (Some e, tc) \<Rightarrow>
                  (Thrown e, Log (''Processing '' @ showNat (length ms) @ '' messages.'') # tc)
              | (None, tc) \<Rightarrow>
                  (case forMessages h databaseId collectionId 0 ms of
                     (Some e, t) \<Rightarrow>
                       (Thrown e,
                        Log (''Processing '' @ showNat (length ms) @ '' messages.'') # tc @ t)
                   | (None, t) \<Rightarrow>
                       (Sent ''Webhook processing complete'' 200,
                        Log (''Processing '' @ showNat (length ms) @ '' messages.'') # tc @ t)))
           else
             (Sent ''Webhook processing complete'' 200,
              [Log ''Payload contains no messages or is of an unexpected format.'']))
      | _ \<Rightarrow>
          (Sent ''Webhook processing complete'' 200,
           [Log ''Payload contains no messages or is of an unexpected format.'']))"

subsection \<open>The payload classifier (lines 39 to 56)\<close>

definition classifier ::
  "host \<Rightarrow> (string \<rightharpoonup> string) \<Rightarrow> string \<Rightarrow> string \<Rightarrow> string \<Rightarrow> outcome \<times> event list" where
  "classifier h env databaseId collectionId rawBody =
     (case JSON_parse h rawBody of
        Inl m \<Rightarrow> (Sent ''Invalid JSON'' 400, [ErrorLog (''Invalid JSON payload: '' @ m)])
      | Inr payload \<Rightarrow>
          (case getProp payload ''event'' of Inl e \<Rightarrow> (Thrown e, []) | Inr ev \<Rightarrow>
           (if ev = Some (JStr ''verification'') then
              (case getProp payload ''token'' of Inl e \<Rightarrow> (Thrown e, []) | Inr token \<Rightarrow>
               (case interpolate (Number_toString h) token of
                  Inl e \<Rightarrow> (Thrown e, [])
                | Inr s \<Rightarrow>
                    (Sent ''Verification request acknowledged'' 200,
                     [Log (''Received verification request with token: '' @ s @
                           ''. Please confirm in nRF Cloud portal.'')])))
            else
              (case getProp payload ''messages'' of Inl e \<Rightarrow> (Thrown e, []) | Inr messages \<Rightarrow>
                 persistenceWriter h env databaseId collectionId messages))))"

subsection \<open>The handler (lines 4 to 100)\<close>

definition requiredReads :: "event list" where
  "requiredReads =
     [EnvRead ''NRFCLOUD_WEBHOOK_SECRET'', EnvRead ''DATABASE_ID'', EnvRead ''COLLECTION_ID'']"

definition handler :: "host \<Rightarrow> (string \<rightharpoonup> string) \<Rightarrow> request \<Rightarrow> outcome \<times> event list" where
  "handler h env req =
     (let webhookSecret = env ''NRFCLOUD_WEBHOOK_SECRET'';
          databaseId = env ''DATABASE_ID'';
          collectionId = env ''COLLECTION_ID''
      in
      if falsy webhookSecret \<or> falsy databaseId \<or> falsy collectionId then
        (Sent ''Internal Server Error'' 500,
         requiredReads @
         [ErrorLog ''Missing required environment variables (NRFCLOUD_WEBHOOK_SECRET, DATABASE_ID, or COLLECTION_ID).''])
      else if method' req \<noteq> ''POST'' then
        (Sent ''Method Not Allowed'' 405, requiredReads)
      else
        (let nrfSignature = headers req ''x-nrfcloud-signature'' in
         if falsy nrfSignature then
           (Sent ''Unauthorized: Missing signature'' 401,
            requiredReads @ [ErrorLog ''Missing X-NRFCLOUD-SIGNATURE header. Rejecting request.''])
         else
           (let calculatedSignature = hmacSha256Hex h (the webhookSecret) (body req) in
            if calculatedSignature \<noteq> the nrfSignature then
              (Sent ''Unauthorized: Invalid signature'' 401,
               requiredReads @
               [ErrorLog (''Signature mismatch. Calculated: '' @ calculatedSignature @
                          '', Received: '' @ the nrfSignature)])
            else
              (case classifier h env (the databaseId) (the collectionId) (body req) of
                 (r, t) \<Rightarrow> (r, requiredReads @ Log ''Signature verified successfully.'' # t)))))"

subsection \<open>The vocabulary of the specification\<close>

text \<open>
  The definitions from here to the examples are not parts of the program: they say, in the
  words of the specification, what the theorems below state about \<open>handler\<close>.

  The three required configuration values are present: each is set, to a string that is
  not empty.
\<close>

definition configured :: "(string \<rightharpoonup> string) \<Rightarrow> string \<Rightarrow> string \<Rightarrow> string \<Rightarrow> bool" where
  "configured env secret db col =
     (env ''NRFCLOUD_WEBHOOK_SECRET'' = Some secret \<and> secret \<noteq> [] \<and>
      env ''DATABASE_ID'' = Some db \<and> db \<noteq> [] \<and>
      env ''COLLECTION_ID'' = Some col \<and> col \<noteq> [])"

text \<open>
  The request is a POST whose signature header is the hexadecimal HMAC-SHA256 of its raw
  body under the secret. A digest in hexadecimal is never the empty string; of the host's
  function, which is arbitrary here, this is required.
\<close>

definition signed :: "host \<Rightarrow> string \<Rightarrow> request \<Rightarrow> bool" where
  "signed h secret req =
     (method' req = ''POST'' \<and>
      headers req ''x-nrfcloud-signature'' = Some (hmacSha256Hex h secret (body req)) \<and>
      hmacSha256Hex h secret (body req) \<noteq> [])"

text \<open>The row of the response table for a missing configuration, with its log line.\<close>

definition missingConfig :: "outcome \<times> event list" where
  "missingConfig =
     (Sent ''Internal Server Error'' 500,
      requiredReads @
      [ErrorLog ''Missing required environment variables (NRFCLOUD_WEBHOOK_SECRET, DATABASE_ID, or COLLECTION_ID).''])"

text \<open>The response table of the specification: body text and status.\<close>

definition responseTable :: "(string \<times> nat) list" where
  "responseTable =
     [(''Internal Server Error'', 500), (''Method Not Allowed'', 405),
      (''Unauthorized: Missing signature'', 401), (''Unauthorized: Invalid signature'', 401),
      (''Invalid JSON'', 400), (''Verification request acknowledged'', 200),
      (''Webhook processing complete'', 200)]"

text \<open>A field of a JSON object; anything that is not an object has no field.\<close>

fun field :: "json \<Rightarrow> string \<Rightarrow> jsvalue" where
  "field (JObj kvs) k = map_of kvs k"
| "field v k = None"

text \<open>
  The StoredRecord of a message: \<^verbatim>\<open>deviceId\<close>, \<^verbatim>\<open>appId\<close> and \<^verbatim>\<open>timestamp\<close> are the
  message's \<^verbatim>\<open>device_id\<close>, \<^verbatim>\<open>appId\<close> and \<^verbatim>\<open>ts\<close>, and \<^verbatim>\<open>payload\<close> is the JSON
  text of the message's payload.
\<close>

definition storedRecord :: "host \<Rightarrow> json \<Rightarrow> fields" where
  "storedRecord h m =
     [(''deviceId'', field m ''device_id''), (''appId'', field m ''appId''),
      (''timestamp'', field m ''ts''),
      (''payload'', map_option (\<lambda>v. JStr (JSON_stringify h v)) (field m ''payload''))]"

text \<open>
  A well-formed Message of the data model: an object with string \<^verbatim>\<open>device_id\<close>,
  \<^verbatim>\<open>appId\<close> and \<^verbatim>\<open>ts\<close> and with a payload.
\<close>

fun isString :: "jsvalue \<Rightarrow> bool" where
  "isString (Some (JStr s)) = True"
| "isString v = False"

definition wellFormed :: "json \<Rightarrow> bool" where
  "wellFormed m =
     (isString (field m ''device_id'') \<and> isString (field m ''appId'') \<and>
      isString (field m ''ts'') \<and> field m ''payload'' \<noteq> None)"

text \<open>
  A message whose device identifier may be absent: an object whose \<^verbatim>\<open>device_id\<close>, if it
  has one, is a string.
\<close>

fun plainMessage :: "json \<Rightarrow> bool" where
  "plainMessage (JObj kvs) =
     (case map_of kvs ''device_id'' of None \<Rightarrow> True | Some (JStr s) \<Rightarrow> True | Some v \<Rightarrow> False)"
| "plainMessage v = False"

text \<open>
  How the two log lines name the device of such a message: the success line prints the
  identifier (\<^verbatim>\<open>undefined\<close> when there is none), the failure line prints the identifier,
  or \<^verbatim>\<open>unknown\<close> when there is none or it is the empty string.
\<close>

fun deviceText :: "jsvalue \<Rightarrow> string" where
  "deviceText (Some (JStr s)) = s"
| "deviceText v = ''undefined''"

definition deviceLabel :: "json \<Rightarrow> string" where
  "deviceLabel m =
     (case field m ''device_id'' of
        Some (JStr s) \<Rightarrow> (if s = [] then ''unknown'' else s)
      | _ \<Rightarrow> ''unknown'')"

text \<open>
  What one message contributes to the effects: the call, then the line that reports how
  the call ended. \<open>stored\<close> is the case of a call that succeeded.
\<close>

definition attempt :: "host \<Rightarrow> string \<Rightarrow> string \<Rightarrow> nat \<Rightarrow> json \<Rightarrow> event list" where
  "attempt h db col i m =
     [CreateDocument db col ''unique()'' (storedRecord h m),
      (case createDocument h i db col ''unique()'' (storedRecord h m) of
         None \<Rightarrow>
           Log (''Successfully stored message from device: '' @ deviceText (field m ''device_id''))
       | Some msg \<Rightarrow>
           ErrorLog (''Database error for message from '' @ deviceLabel m @ '': '' @ msg))]"

definition stored :: "host \<Rightarrow> string \<Rightarrow> string \<Rightarrow> json \<Rightarrow> event list" where
  "stored h db col m =
     [CreateDocument db col ''unique()'' (storedRecord h m),
      Log (''Successfully stored message from device: '' @ deviceText (field m ''device_id''))]"

text \<open>
  The SDK accepts the three settings of the client that the handler reads from the
  environment, so that the client is built without an exception; \<open>clientBuilt\<close> is what
  the construction then adds to the effects.
\<close>

definition clientBuilds :: "host \<Rightarrow> (string \<rightharpoonup> string) \<Rightarrow> bool" where
  "clientBuilds h env =
     (setEndpoint h (env ''APPWRITE_ENDPOINT'') = None \<and>
      setProject h (env ''APPWRITE_PROJECT_ID'') = None \<and>
      setKey h (env ''APPWRITE_API_KEY'') = None)"

definition clientBuilt :: "(string \<rightharpoonup> string) \<Rightarrow> event list" where
  "clientBuilt env =
     [NewClient,
      EnvRead ''APPWRITE_ENDPOINT'', SetEndpoint (env ''APPWRITE_ENDPOINT''),
      EnvRead ''APPWRITE_PROJECT_ID'', SetProject (env ''APPWRITE_PROJECT_ID''),
      EnvRead ''APPWRITE_API_KEY'', SetKey (env ''APPWRITE_API_KEY''),
      NewDatabases]"

text \<open>The \<^verbatim>\<open>createDocument\<close> calls among the effects, in order, with their arguments.\<close>

fun createCalls :: "event list \<Rightarrow> (string \<times> string \<times> string \<times> fields) list" where
  "createCalls [] = []"
| "createCalls (CreateDocument a b c d # es) = (a, b, c, d) # createCalls es"
| "createCalls (e # es) = createCalls es"

text \<open>
  The effects that build the database client or read one of its three variables.
\<close>

fun clientEvent :: "event \<Rightarrow> bool" where
  "clientEvent NewClient = True"
| "clientEvent (SetEndpoint v) = True"
| "clientEvent (SetProject v) = True"
| "clientEvent (SetKey v) = True"
| "clientEvent NewDatabases = True"
| "clientEvent (EnvRead k) =
     (k = ''APPWRITE_ENDPOINT'' \<or> k = ''APPWRITE_PROJECT_ID'' \<or> k = ''APPWRITE_API_KEY'')"
| "clientEvent e = False"

text \<open>
  The classification of a parsed payload: a verification handshake, a payload with a
  non-empty array of messages, or neither.
\<close>

definition isVerification :: "json \<Rightarrow> bool" where
  "isVerification p = (field p ''event'' = Some (JStr ''verification''))"

definition hasMessages :: "json \<Rightarrow> bool" where
  "hasMessages p = (case field p ''messages'' of Some (JArr ms) \<Rightarrow> ms \<noteq> [] | _ \<Rightarrow> False)"

text \<open>
  Every gate passes: the configuration is present, the method is POST and the signature
  header holds the HMAC of the body. The request reaches the writer when moreover its body
  parses to a payload that is no handshake and has messages.
\<close>

definition passesGates :: "host \<Rightarrow> (string \<rightharpoonup> string) \<Rightarrow> request \<Rightarrow> bool" where
  "passesGates h env req =
     (\<not> falsy (env ''NRFCLOUD_WEBHOOK_SECRET'') \<and> \<not> falsy (env ''DATABASE_ID'') \<and>
      \<not> falsy (env ''COLLECTION_ID'') \<and> method' req = ''POST'' \<and>
      \<not> falsy (headers req ''x-nrfcloud-signature'') \<and>
      headers req ''x-nrfcloud-signature'' =
        map_option (\<lambda>secret. hmacSha256Hex h secret (body req)) (env ''NRFCLOUD_WEBHOOK_SECRET''))"

definition reachesWriter :: "host \<Rightarrow> (string \<rightharpoonup> string) \<Rightarrow> request \<Rightarrow> bool" where
  "reachesWriter h env req =
     (passesGates h env req \<and>
      (case JSON_parse h (body req) of
         Inl m \<Rightarrow> False
       | Inr p \<Rightarrow> \<not> isVerification p \<and> hasMessages p))"

subsection \<open>Example requests\<close>

text \<open>
  Seven request bodies, and a host that answers as Node.js and the SDK do on them: the
  HMAC-SHA256 of each body under the secret \<^verbatim>\<open>s3cret\<close>, the value \<^verbatim>\<open>JSON.parse\<close> returns
  for it, and \<^verbatim>\<open>JSON.stringify\<close> and the printing of numbers on the values that occur in
  the bodies. The example host is not meant for other inputs. Its store rejects the first
  call of an invocation and accepts the others; \<open>quietHost\<close> has a store that accepts every
  call.
\<close>

definition bodyNull :: string where
  \<open>bodyNull = ''null''\<close>

definition bodyVerification :: string where
  \<open>bodyVerification = ''{"event":"verification","token":"abc123"}''\<close>

definition bodyOddToken :: string where
  \<open>bodyOddToken = ''{"event":"verification","token":{"toString":0}}''\<close>

definition bodyTwo :: string where
  \<open>bodyTwo = ''{"messages":[{"device_id":"nrf-1","appId":"TEMP","ts":"2024-01-01T00:00:00Z","payload":21},{"device_id":"nrf-2","appId":"BUTTON","ts":"2024-01-01T00:00:05Z","payload":"on"}]}''\<close>

definition bodyOddDevice :: string where
  \<open>bodyOddDevice = ''{"messages":[{"device_id":{"toString":0},"appId":"TEMP","ts":"2024-01-01T00:00:00Z","payload":21},{"device_id":"nrf-2","appId":"BUTTON","ts":"2024-01-01T00:00:05Z","payload":"on"}]}''\<close>

definition bodyNullMessage :: string where
  \<open>bodyNullMessage = ''{"messages":[null]}''\<close>

definition messageOne :: json where
  "messageOne =
     JObj [(''device_id'', JStr ''nrf-1''), (''appId'', JStr ''TEMP''),
           (''ts'', JStr ''2024-01-01T00:00:00Z''), (''payload'', JNum (Finite 21))]"

definition messageOdd :: json where
  "messageOdd =
     JObj [(''device_id'', JObj [(''toString'', JNum (Finite 0))]), (''appId'', JStr ''TEMP''),
           (''ts'', JStr ''2024-01-01T00:00:00Z''), (''payload'', JNum (Finite 21))]"

definition messageTwo :: json where
  "messageTwo =
     JObj [(''device_id'', JStr ''nrf-2''), (''appId'', JStr ''BUTTON''),
           (''ts'', JStr ''2024-01-01T00:00:05Z''), (''payload'', JStr ''on'')]"

definition exampleHmac :: "string \<Rightarrow> string \<Rightarrow> string" where
  "exampleHmac k b =
     (if k \<noteq> ''s3cret'' then []
      else if b = bodyNull then
        ''6bdc8339664e8a1215bd49ccb2de923159603c41a1cea6d74583ab491fbfde3c''
      else if b = bodyVerification then
        ''103d47bb775237513a4617dda5deaa263c1d2641260171c81c9e67e9b154df17''
      else if b = bodyOddToken then
        ''c65981214cd1dde05c39dcc9c71aa300ade3e37d121cd800f31c2dbc4e7ec53b''
      else if b = bodyTwo then
        ''ceb95431022956166abac1940e06be7215baf63fa66a1a9591460cc5417c2b7a''
      else if b = bodyNullMessage then
        ''e7faaa423393e0c217ed1fe9564db586527f6f2de0f710c8fab0edd7b403912c''
      else if b = bodyOddDevice then
        ''7ad05ee43f84391520a3672b496a2c133ae2146b3c9cd4bd20cc18c45f6476d0''
      else [])"

definition exampleParse :: "string \<Rightarrow> string + json" where
  "exampleParse b =
     (if b = bodyNull then Inr JNull
      else if b = bodyVerification then
        Inr (JObj [(''event'', JStr ''verification''), (''token'', JStr ''abc123'')])
      else if b = bodyOddToken then
        Inr (JObj [(''event'', JStr ''verification''),
                   (''token'', JObj [(''toString'', JNum (Finite 0))])])
      else if b = bodyTwo then Inr (JObj [(''messages'', JArr [messageOne, messageTwo])])
      else if b = bodyNullMessage then Inr (JObj [(''messages'', JArr [JNull])])
      else if b = bodyOddDevice then Inr (JObj [(''messages'', JArr [messageOdd, messageTwo])])
      else Inl ''Unexpected token'')"

definition exampleStringify :: "json \<Rightarrow> string" where
  \<open>exampleStringify v =
     (if v = JNum (Finite 21) then ''21'' else if v = JStr ''on'' then ''"on"'' else ''null'')\<close>

fun exampleNumber :: "jsnumber \<Rightarrow> string" where
  "exampleNumber (Finite r) = (if r = 21 then ''21'' else ''0'')"
| "exampleNumber PosInf = ''Infinity''"
| "exampleNumber NegInf = ''-Infinity''"

text \<open>
  \<^verbatim>\<open>setEndpoint\<close> as the versions of the SDK that validate the endpoint have it: a value
  that is \<^verbatim>\<open>undefined\<close> or empty, or that does not begin with \<^verbatim>\<open>http://\<close> or
  \<^verbatim>\<open>https://\<close>, is refused with an exception.
\<close>

definition sdkSetEndpoint :: "string option \<Rightarrow> exn option" where
  "sdkSetEndpoint v =
     (case v of
        None \<Rightarrow> Some (AppwriteException ''Endpoint must be a valid string'')
      | Some e \<Rightarrow>
          (if e = [] then Some (AppwriteException ''Endpoint must be a valid string'')
           else if take 7 e = ''http://'' \<or> take 8 e = ''https://'' then None
           else Some (AppwriteException (''Invalid endpoint URL: '' @ e))))"

definition exampleHost :: host where
  "exampleHost =
     \<lparr>hmacSha256Hex = exampleHmac, JSON_parse = exampleParse,
      JSON_stringify = exampleStringify, Number_toString = exampleNumber,
      createDocument = (\<lambda>k db col u d. if k = 0 then Some ''Server Error'' else None),
      setEndpoint = sdkSetEndpoint, setProject = (\<lambda>v. None), setKey = (\<lambda>v. None)\<rparr>"

definition quietHost :: host where
  "quietHost = exampleHost\<lparr>createDocument := (\<lambda>k db col u d. None)\<rparr>"

definition exampleEnv :: "string \<rightharpoonup> string" where
  "exampleEnv =
     [''NRFCLOUD_WEBHOOK_SECRET'' \<mapsto> ''s3cret'', ''DATABASE_ID'' \<mapsto> ''iot'',
      ''COLLECTION_ID'' \<mapsto> ''telemetry'',
      ''APPWRITE_ENDPOINT'' \<mapsto> ''https://cloud.appwrite.io/v1'',
      ''APPWRITE_PROJECT_ID'' \<mapsto> ''p1'', ''APPWRITE_API_KEY'' \<mapsto> ''key'']"

text \<open>A POST of a body with its signature, and a GET without headers.\<close>

definition post :: "string \<Rightarrow> request" where
  "post b =
     \<lparr>method' = ''POST'', headers = [''x-nrfcloud-signature'' \<mapsto> exampleHmac ''s3cret'' b],
      body = b\<rparr>"

definition getRequest :: request where
  "getRequest = \<lparr>method' = ''GET'', headers = Map.empty, body = []\<rparr>"

section \<open>Properties\<close>

subsection \<open>The gates\<close>

lemma handler_verified:
  assumes "configured env secret db col" and "signed h secret req"
  shows "handler h env req =
           (case classifier h env db col (body req) of
              (r, t) \<Rightarrow> (r, requiredReads @ Log ''Signature verified successfully.'' # t))"
  using assms by (simp add: handler_def configured_def signed_def)

lemma classifier_status:
  "fst (classifier h env db col b) = Sent x s \<Longrightarrow> s = 400 \<or> s = 200"
  by (auto simp: classifier_def persistenceWriter_def
      split: sum.splits if_splits option.splits json.splits prod.splits)

subsection \<open>The message loop\<close>

lemma stringify_map: "stringify h v = map_option (\<lambda>v. JStr (JSON_stringify h v)) v"
  by (cases v) simp_all

lemma tryStore_plain:
  assumes "plainMessage m"
  shows "tryStore h db col i m =
    (case createDocument h i db col ''unique()'' (storedRecord h m) of
       None \<Rightarrow> (None, stored h db col m)
     | Some msg \<Rightarrow> (Some (Rejected msg), [CreateDocument db col ''unique()'' (storedRecord h m)]))"
proof (cases m)
  case (JObj kvs)
  with assms show ?thesis
    by (auto simp: tryStore_def storedRecord_def stored_def stringify_map
        split: option.splits json.splits)
qed (use assms in simp_all)

lemma catchStore_plain:
  assumes "plainMessage m"
  shows "catchStore h m e =
     (None, [ErrorLog (''Database error for message from '' @ deviceLabel m @ '': '' @ message_of e)])"
proof (cases m)
  case (JObj kvs)
  with assms show ?thesis
    by (auto simp: catchStore_def orUnknown_def deviceLabel_def split: option.splits json.splits)
qed (use assms in simp_all)

lemma forMessages_plain:
  "list_all plainMessage ms \<Longrightarrow>
   forMessages h db col i ms =
     (None, concat (map (\<lambda>(j, m). attempt h db col j m) (enumerate i ms)))"
proof (induction ms arbitrary: i)
  case Nil
  then show ?case by simp
next
  case (Cons m ms)
  then have m: "plainMessage m" and ms: "list_all plainMessage ms" by simp_all
  show ?case
    by (simp add: tryStore_plain [OF m] catchStore_plain [OF m] Cons.IH [OF ms] attempt_def
        stored_def split: option.splits)
qed

lemma createCalls_append: "createCalls (xs @ ys) = createCalls xs @ createCalls ys"
proof (induction xs)
  case Nil
  then show ?case by simp
next
  case (Cons e xs)
  then show ?case by (cases e) simp_all
qed

lemma createCalls_attempts:
  "createCalls (concat (map (\<lambda>(j, m). attempt h db col j m) (enumerate i ms))) =
     map (\<lambda>m. (db, col, ''unique()'', storedRecord h m)) ms"
  by (induction ms arbitrary: i)
     (simp_all add: createCalls_append attempt_def split: option.splits)

lemma createCalls_clientBuilt: "createCalls (clientBuilt env) = []"
  by (simp add: clientBuilt_def)

lemma newDatabases_built: "clientBuilds h env \<Longrightarrow> newDatabases h env = (None, clientBuilt env)"
  by (simp add: newDatabases_def clientBuilds_def clientBuilt_def)

lemma createCalls_newDatabases: "createCalls (snd (newDatabases h env)) = []"
  by (simp add: newDatabases_def split: option.splits)

lemma createCalls_requiredReads: "createCalls requiredReads = []"
  by (simp add: requiredReads_def)

lemma attempts_stored:
  assumes "\<forall>k d c u f. createDocument h k d c u f = None"
  shows "concat (map (\<lambda>(j, m). attempt h db col j m) (enumerate i ms)) =
           concat (map (stored h db col) ms)"
  using assms by (induction ms arbitrary: i) (simp_all add: attempt_def stored_def)

lemma attempt_in_batch:
  assumes "k < length ms"
  shows "set (attempt h db col (i + k) (ms ! k)) \<subseteq>
           set (concat (map (\<lambda>(j, m). attempt h db col j m) (enumerate i ms)))"
proof -
  from assms have "(i + k, ms ! k) \<in> set (enumerate i ms)"
    by (simp add: in_set_enumerate_eq)
  then show ?thesis by force
qed

lemma wellFormed_plain: "wellFormed m \<Longrightarrow> plainMessage m"
  by (cases m; cases "field m ''device_id''")
     (auto simp: wellFormed_def split: option.splits json.splits elim: isString.elims)

text \<open>
  A signed request whose payload has a non-empty array of messages, each an object whose
  device identifier is a string or absent, under a configuration from which the client is
  built: the handler attempts every message in turn, whatever the store answers, and
  responds 200.
\<close>

lemma batch_of_plain_messages:
  assumes "configured env secret db col" and "signed h secret req"
    and "JSON_parse h (body req) = Inr p"
    and "\<not> isVerification p"
    and "field p ''messages'' = Some (JArr ms)" and "ms \<noteq> []"
    and "list_all plainMessage ms"
    and "clientBuilds h env"
  shows "handler h env req =
           (Sent ''Webhook processing complete'' 200,
            requiredReads @
            [Log ''Signature verified successfully.'',
             Log (''Processing '' @ showNat (length ms) @ '' messages.'')] @
            clientBuilt env @
            concat (map (\<lambda>(j, m). attempt h db col j m) (enumerate 0 ms)))"
proof -
  from assms(5) obtain kvs where p: "p = JObj kvs"
    by (cases p) simp_all
  from assms(3,4,5,6) p
  have "classifier h env db col (body req) =
          (Sent ''Webhook processing complete'' 200,
           Log (''Processing '' @ showNat (length ms) @ '' messages.'') # clientBuilt env @
           concat (map (\<lambda>(j, m). attempt h db col j m) (enumerate 0 ms)))"
    by (simp add: classifier_def persistenceWriter_def isVerification_def
        newDatabases_built [OF assms(8)] forMessages_plain [OF assms(7)])
  then show ?thesis
    by (simp add: handler_verified [OF assms(1,2)])
qed

text \<open>
  Under the same conditions a rejected write is logged with the device identifier of its
  message, or \<^verbatim>\<open>unknown\<close>, and changes neither the calls that are made nor the
  response.
\<close>

lemma plain_batch_failure_isolated:
  assumes "configured env secret db col" and "signed h secret req"
    and "JSON_parse h (body req) = Inr p"
    and "\<not> isVerification p"
    and "field p ''messages'' = Some (JArr ms)"
    and "list_all plainMessage ms"
    and "clientBuilds h env"
    and "k < length ms"
    and "createDocument h k db col ''unique()'' (storedRecord h (ms ! k)) = Some msg"
  shows "fst (handler h env req) = Sent ''Webhook processing complete'' 200 \<and>
         ErrorLog (''Database error for message from '' @ deviceLabel (ms ! k) @ '': '' @ msg)
           \<in> set (snd (handler h env req)) \<and>
         createCalls (snd (handler h env req)) =
           map (\<lambda>m. (db, col, ''unique()'', storedRecord h m)) ms"
proof -
  from assms(8) have ne: "ms \<noteq> []" by auto
  note b = batch_of_plain_messages [OF assms(1-5) ne assms(6,7)]
  have "ErrorLog (''Database error for message from '' @ deviceLabel (ms ! k) @ '': '' @ msg)
          \<in> set (attempt h db col (0 + k) (ms ! k))"
    using assms(9) by (simp add: attempt_def)
  with attempt_in_batch [OF assms(8), of h db col 0]
  have "ErrorLog (''Database error for message from '' @ deviceLabel (ms ! k) @ '': '' @ msg)
          \<in> set (concat (map (\<lambda>(j, m). attempt h db col j m) (enumerate 0 ms)))"
    by blast
  then have logged:
    "ErrorLog (''Database error for message from '' @ deviceLabel (ms ! k) @ '': '' @ msg)
       \<in> set (snd (handler h env req))"
    by (simp add: b)
  have calls: "createCalls (snd (handler h env req)) =
                 map (\<lambda>m. (db, col, ''unique()'', storedRecord h m)) ms"
    by (simp add: b createCalls_append createCalls_requiredReads createCalls_clientBuilt
        createCalls_attempts)
  from b logged calls show ?thesis by simp
qed

subsection \<open>The examples\<close>

lemma exampleHost_sel [simp]:
  "hmacSha256Hex exampleHost = exampleHmac"
  "JSON_parse exampleHost = exampleParse"
  "JSON_stringify exampleHost = exampleStringify"
  "Number_toString exampleHost = exampleNumber"
  "createDocument exampleHost = (\<lambda>k db col u d. if k = 0 then Some ''Server Error'' else None)"
  "setEndpoint exampleHost = sdkSetEndpoint"
  "setProject exampleHost = (\<lambda>v. None)"
  "setKey exampleHost = (\<lambda>v. None)"
  by (simp_all add: exampleHost_def)

lemma quietHost_sel [simp]:
  "hmacSha256Hex quietHost = exampleHmac"
  "JSON_parse quietHost = exampleParse"
  "JSON_stringify quietHost = exampleStringify"
  "Number_toString quietHost = exampleNumber"
  "createDocument quietHost = (\<lambda>k db col u d. None)"
  "setEndpoint quietHost = sdkSetEndpoint"
  "setProject quietHost = (\<lambda>v. None)"
  "setKey quietHost = (\<lambda>v. None)"
  by (simp_all add: quietHost_def exampleHost_def)

lemma post_sel [simp]:
  "method' (post b) = ''POST''"
  "headers (post b) = [''x-nrfcloud-signature'' \<mapsto> exampleHmac ''s3cret'' b]"
  "body (post b) = b"
  by (simp_all add: post_def)

lemma exampleHmac_values:
  "exampleHmac ''s3cret'' bodyNull =
     ''6bdc8339664e8a1215bd49ccb2de923159603c41a1cea6d74583ab491fbfde3c''"
  "exampleHmac ''s3cret'' bodyVerification =
     ''103d47bb775237513a4617dda5deaa263c1d2641260171c81c9e67e9b154df17''"
  "exampleHmac ''s3cret'' bodyOddToken =
     ''c65981214cd1dde05c39dcc9c71aa300ade3e37d121cd800f31c2dbc4e7ec53b''"
  "exampleHmac ''s3cret'' bodyTwo =
     ''ceb95431022956166abac1940e06be7215baf63fa66a1a9591460cc5417c2b7a''"
  "exampleHmac ''s3cret'' bodyNullMessage =
     ''e7faaa423393e0c217ed1fe9564db586527f6f2de0f710c8fab0edd7b403912c''"
  "exampleHmac ''s3cret'' bodyOddDevice =
     ''7ad05ee43f84391520a3672b496a2c133ae2146b3c9cd4bd20cc18c45f6476d0''"
  by (simp_all add: exampleHmac_def bodyNull_def bodyVerification_def bodyOddToken_def
      bodyTwo_def bodyNullMessage_def bodyOddDevice_def)

lemma exampleParse_values:
  "exampleParse bodyNull = Inr JNull"
  "exampleParse bodyVerification =
     Inr (JObj [(''event'', JStr ''verification''), (''token'', JStr ''abc123'')])"
  "exampleParse bodyOddToken =
     Inr (JObj [(''event'', JStr ''verification''),
                (''token'', JObj [(''toString'', JNum (Finite 0))])])"
  "exampleParse bodyTwo = Inr (JObj [(''messages'', JArr [messageOne, messageTwo])])"
  "exampleParse bodyNullMessage = Inr (JObj [(''messages'', JArr [JNull])])"
  "exampleParse bodyOddDevice = Inr (JObj [(''messages'', JArr [messageOdd, messageTwo])])"
  by (simp_all add: exampleParse_def bodyNull_def bodyVerification_def bodyOddToken_def
      bodyTwo_def bodyNullMessage_def bodyOddDevice_def)

lemma exampleEnv_configured: "configured exampleEnv ''s3cret'' ''iot'' ''telemetry''"
  by (simp add: configured_def exampleEnv_def)

lemma post_signed:
  "signed exampleHost ''s3cret'' (post bodyNull)"
  "signed exampleHost ''s3cret'' (post bodyVerification)"
  "signed exampleHost ''s3cret'' (post bodyOddToken)"
  "signed exampleHost ''s3cret'' (post bodyTwo)"
  "signed exampleHost ''s3cret'' (post bodyNullMessage)"
  "signed quietHost ''s3cret'' (post bodyTwo)"
  "signed exampleHost ''s3cret'' (post bodyOddDevice)"
  by (simp_all add: signed_def exampleHmac_values)

lemma example_clientBuilds:
  "clientBuilds exampleHost exampleEnv" "clientBuilds quietHost exampleEnv"
  by (simp_all add: clientBuilds_def exampleEnv_def sdkSetEndpoint_def)

lemma unset_endpoint_configured:
  "configured (exampleEnv(''APPWRITE_ENDPOINT'' := None)) ''s3cret'' ''iot'' ''telemetry''"
  by (simp add: configured_def exampleEnv_def)

lemma examples_plain:
  "wellFormed messageOne" "wellFormed messageTwo"
  "plainMessage messageOne" "plainMessage messageTwo"
  by (simp_all add: wellFormed_def messageOne_def messageTwo_def)

lemma example_records:
  "storedRecord exampleHost messageOne =
     [(''deviceId'', Some (JStr ''nrf-1'')), (''appId'', Some (JStr ''TEMP'')),
      (''timestamp'', Some (JStr ''2024-01-01T00:00:00Z'')), (''payload'', Some (JStr ''21''))]"
  "storedRecord quietHost messageOne = storedRecord exampleHost messageOne"
  "storedRecord quietHost messageTwo = storedRecord exampleHost messageTwo"
  by (simp_all add: storedRecord_def messageOne_def messageTwo_def exampleStringify_def)

lemma example_record_two:
  \<open>storedRecord exampleHost messageTwo =
     [(''deviceId'', Some (JStr ''nrf-2'')), (''appId'', Some (JStr ''BUTTON'')),
      (''timestamp'', Some (JStr ''2024-01-01T00:00:05Z'')), (''payload'', Some (JStr ''"on"''))]\<close>
  by (simp add: storedRecord_def messageTwo_def exampleStringify_def)

subsection \<open>Claims about the gates\<close>

text \<open>
  Claim C1. Take a POST request; let the three required configuration values be present
  and let the signature header be present, each as the handler tests presence: a string
  that is not empty. Then the response is 401 with body \<^verbatim>\<open>Unauthorized: Invalid signature\<close>
  if and only if the header value differs, as a string, from the hexadecimal HMAC-SHA256
  that the host computes with the configured secret over the raw body of the request; the
  log line then holds both values. If the two are equal, no 401 is returned and processing
  goes on past the verifier, which logs its success.
\<close>

theorem signature_compared_with_hmac:
  assumes "configured env secret db col"
    and "method' req = ''POST''"
    and "headers req ''x-nrfcloud-signature'' = Some sig" and "sig \<noteq> []"
  shows "((fst (handler h env req) = Sent ''Unauthorized: Invalid signature'' 401) =
            (sig \<noteq> hmacSha256Hex h secret (body req))) \<and>
         (sig \<noteq> hmacSha256Hex h secret (body req) \<longrightarrow>
            snd (handler h env req) =
              requiredReads @
              [ErrorLog (''Signature mismatch. Calculated: '' @ hmacSha256Hex h secret (body req) @
                         '', Received: '' @ sig)]) \<and>
         (sig = hmacSha256Hex h secret (body req) \<longrightarrow>
            (\<forall>b. fst (handler h env req) \<noteq> Sent b 401) \<and>
            Log ''Signature verified successfully.'' \<in> set (snd (handler h env req)))"
proof (cases "sig = hmacSha256Hex h secret (body req)")
  case True
  with assms have s: "signed h secret req" by (simp add: signed_def)
  note v = handler_verified [OF assms(1) s]
  have "fst (handler h env req) \<noteq> Sent b 401" for b
    using classifier_status [of h env db col "body req" b 401]
    by (auto simp: v split: prod.splits)
  moreover have "Log ''Signature verified successfully.'' \<in> set (snd (handler h env req))"
    by (simp add: v split: prod.splits)
  ultimately show ?thesis using True by simp
next
  case False
  with assms show ?thesis by (simp add: handler_def configured_def)
qed

theorem signature_compared_with_hmac_witness:
  "fst (handler exampleHost exampleEnv (post bodyVerification)) \<noteq>
     Sent ''Unauthorized: Invalid signature'' 401 \<and>
   Log ''Signature verified successfully.'' \<in>
     set (snd (handler exampleHost exampleEnv (post bodyVerification))) \<and>
   fst (handler exampleHost exampleEnv
         \<lparr>method' = ''POST'', headers = [''x-nrfcloud-signature'' \<mapsto> ''00''],
          body = bodyVerification\<rparr>) =
     Sent ''Unauthorized: Invalid signature'' 401"
  using
    signature_compared_with_hmac [OF exampleEnv_configured, of "post bodyVerification"
      "exampleHmac ''s3cret'' bodyVerification" exampleHost]
    signature_compared_with_hmac [OF exampleEnv_configured,
      of "\<lparr>method' = ''POST'', headers = [''x-nrfcloud-signature'' \<mapsto> ''00''],
           body = bodyVerification\<rparr>" "''00''" exampleHost]
  by (simp add: exampleHmac_values)

text \<open>
  Claim C5, amended. The configuration is tested before the method. For every request whose
  method is not POST, when the three required configuration values are present and not
  empty, the response is 405 with body \<^verbatim>\<open>Method Not Allowed\<close>; nothing is logged, no
  client is built and no document is created: the only effects are the three reads of the
  required configuration. When a value is missing the same request is answered with 500,
  as a GET request under an empty environment shows.
\<close>

theorem method_gate_after_config:
  assumes "configured env secret db col" and "method' req \<noteq> ''POST''"
  shows "handler h env req = (Sent ''Method Not Allowed'' 405, requiredReads)"
  using assms by (simp add: handler_def configured_def)

theorem method_gate_after_config_witness:
  "handler exampleHost exampleEnv getRequest = (Sent ''Method Not Allowed'' 405, requiredReads)"
  using method_gate_after_config [OF exampleEnv_configured, of getRequest exampleHost]
  by (simp add: getRequest_def)

theorem method_gate_unconfigured_counterexample:
  "method' getRequest \<noteq> ''POST'' \<and>
   handler exampleHost Map.empty getRequest = missingConfig \<and>
   fst (handler exampleHost Map.empty getRequest) \<noteq> Sent ''Method Not Allowed'' 405"
  by (simp add: handler_def missingConfig_def getRequest_def)

text \<open>
  Claim C8. When one of the three required environment values is set to the empty string,
  every request is answered with 500 and body \<^verbatim>\<open>Internal Server Error\<close>, after the
  log line about the missing configuration and nothing else: exactly what the handler does
  when that variable is not set at all.
\<close>

theorem empty_config_is_missing:
  assumes "k \<in> {''NRFCLOUD_WEBHOOK_SECRET'', ''DATABASE_ID'', ''COLLECTION_ID''}"
    and "env k = Some []"
  shows "handler h env req = missingConfig \<and> handler h (env(k := None)) req = missingConfig"
  using assms by (auto simp: handler_def missingConfig_def)

theorem empty_config_is_missing_witness:
  "handler exampleHost (exampleEnv(''DATABASE_ID'' \<mapsto> [])) (post bodyVerification) =
     missingConfig \<and>
   handler exampleHost (exampleEnv(''DATABASE_ID'' := None)) (post bodyVerification) =
     missingConfig"
  using empty_config_is_missing [of "''DATABASE_ID''" "exampleEnv(''DATABASE_ID'' \<mapsto> [])"
      exampleHost "post bodyVerification"]
  by simp

text \<open>
  Claim C9. The signature is read under the lowercase key \<^verbatim>\<open>x-nrfcloud-signature\<close> only.
  A configured POST request that carries a signature under any other key, and nothing under
  the lowercase key, is answered with 401 and body \<^verbatim>\<open>Unauthorized: Missing signature\<close>,
  whatever the signature is.
\<close>

theorem signature_read_from_lowercase_key:
  assumes "configured env secret db col" and "method' req = ''POST''"
    and "headers req ''x-nrfcloud-signature'' = None"
    and "k \<noteq> ''x-nrfcloud-signature''" and "headers req k = Some sig"
  shows "handler h env req =
           (Sent ''Unauthorized: Missing signature'' 401,
            requiredReads @ [ErrorLog ''Missing X-NRFCLOUD-SIGNATURE header. Rejecting request.''])"
  using assms by (simp add: handler_def configured_def)

theorem signature_read_from_lowercase_key_witness:
  "handler exampleHost exampleEnv
     \<lparr>method' = ''POST'',
      headers = [''X-NRFCLOUD-SIGNATURE'' \<mapsto> exampleHmac ''s3cret'' bodyVerification],
      body = bodyVerification\<rparr> =
   (Sent ''Unauthorized: Missing signature'' 401,
    requiredReads @ [ErrorLog ''Missing X-NRFCLOUD-SIGNATURE header. Rejecting request.''])"
  using signature_read_from_lowercase_key [OF exampleEnv_configured,
      of "\<lparr>method' = ''POST'',
           headers = [''X-NRFCLOUD-SIGNATURE'' \<mapsto> exampleHmac ''s3cret'' bodyVerification],
           body = bodyVerification\<rparr>"
         "''X-NRFCLOUD-SIGNATURE''" "exampleHmac ''s3cret'' bodyVerification" exampleHost]
  by simp

subsection \<open>Claims about the writer\<close>

text \<open>
  Claim C2, amended. Take a request that passes the configuration, method and signature
  checks and whose payload, no verification handshake, has an array of \<open>N \<ge> 1\<close>
  well-formed messages; let the SDK accept the three settings of the client that the
  handler reads from \<^verbatim>\<open>APPWRITE_ENDPOINT\<close>, \<^verbatim>\<open>APPWRITE_PROJECT_ID\<close> and
  \<^verbatim>\<open>APPWRITE_API_KEY\<close>, and let every call of the store succeed. Then the handler responds
  200 with body \<^verbatim>\<open>Webhook processing complete\<close>, and its \<^verbatim>\<open>createDocument\<close> calls are
  exactly one per message, in the order of the batch, each for the configured database and
  collection, with the identifier \<^verbatim>\<open>unique()\<close> that asks the store to generate one, and
  with the StoredRecord of the message. The effects show that each call is followed by the
  log line of its success before the next call is made.

  Without the condition on the client the statement fails: the configuration check covers
  three of the six variables, and when \<^verbatim>\<open>APPWRITE_ENDPOINT\<close> is not set an SDK that
  validates the endpoint throws at line 61, outside any \<^verbatim>\<open>try\<close>, before any call of the
  store.
\<close>

theorem batch_stored_in_order:
  assumes "configured env secret db col" and "signed h secret req"
    and "JSON_parse h (body req) = Inr p"
    and "\<not> isVerification p"
    and "field p ''messages'' = Some (JArr ms)" and "ms \<noteq> []"
    and "list_all wellFormed ms"
    and "clientBuilds h env"
    and "\<forall>k d c u f. createDocument h k d c u f = None"
  shows "handler h env req =
           (Sent ''Webhook processing complete'' 200,
            requiredReads @
            [Log ''Signature verified successfully.'',
             Log (''Processing '' @ showNat (length ms) @ '' messages.'')] @
            clientBuilt env @ concat (map (stored h db col) ms)) \<and>
         createCalls (snd (handler h env req)) =
           map (\<lambda>m. (db, col, ''unique()'', storedRecord h m)) ms"
proof -
  from assms(7) have plain: "list_all plainMessage ms"
    by (induction ms) (simp_all add: wellFormed_plain)
  note b = batch_of_plain_messages [OF assms(1-6) plain assms(8)]
  have calls: "createCalls (snd (handler h env req)) =
                 map (\<lambda>m. (db, col, ''unique()'', storedRecord h m)) ms"
    by (simp add: b createCalls_append createCalls_requiredReads createCalls_clientBuilt
        createCalls_attempts)
  from b calls show ?thesis
    by (simp add: attempts_stored [OF assms(9)])
qed

theorem batch_stored_in_order_witness:
  "fst (handler quietHost exampleEnv (post bodyTwo)) = Sent ''Webhook processing complete'' 200 \<and>
   createCalls (snd (handler quietHost exampleEnv (post bodyTwo))) =
     [(''iot'', ''telemetry'', ''unique()'', storedRecord exampleHost messageOne),
      (''iot'', ''telemetry'', ''unique()'', storedRecord exampleHost messageTwo)]"
proof -
  have parsed: "JSON_parse quietHost (body (post bodyTwo)) =
                  Inr (JObj [(''messages'', JArr [messageOne, messageTwo])])"
    by (simp add: exampleParse_values)
  have other: "\<not> isVerification (JObj [(''messages'', JArr [messageOne, messageTwo])])"
    by (simp add: isVerification_def)
  have batch: "field (JObj [(''messages'', JArr [messageOne, messageTwo])]) ''messages'' =
                 Some (JArr [messageOne, messageTwo])"
    by simp
  have some: "[messageOne, messageTwo] \<noteq> []"
    by simp
  have shape: "list_all wellFormed [messageOne, messageTwo]"
    by (simp add: examples_plain)
  have quiet: "\<forall>k d c u f. createDocument quietHost k d c u f = None"
    by simp
  note w = batch_stored_in_order [OF exampleEnv_configured post_signed(6) parsed other batch
      some shape example_clientBuilds(2) quiet]
  from w [THEN conjunct1] have "fst (handler quietHost exampleEnv (post bodyTwo)) =
      Sent ''Webhook processing complete'' 200"
    by simp
  moreover from w [THEN conjunct2]
  have "createCalls (snd (handler quietHost exampleEnv (post bodyTwo))) =
     [(''iot'', ''telemetry'', ''unique()'', storedRecord exampleHost messageOne),
      (''iot'', ''telemetry'', ''unique()'', storedRecord exampleHost messageTwo)]"
    by (simp add: example_records(2,3))
  ultimately show ?thesis by simp
qed

theorem unset_endpoint_counterexample:
  "configured (exampleEnv(''APPWRITE_ENDPOINT'' := None)) ''s3cret'' ''iot'' ''telemetry'' \<and>
   signed quietHost ''s3cret'' (post bodyTwo) \<and>
   JSON_parse quietHost (body (post bodyTwo)) =
     Inr (JObj [(''messages'', JArr [messageOne, messageTwo])]) \<and>
   list_all wellFormed [messageOne, messageTwo] \<and>
   createDocument quietHost = (\<lambda>k d c u f. None) \<and>
   handler quietHost (exampleEnv(''APPWRITE_ENDPOINT'' := None)) (post bodyTwo) =
     (Thrown (AppwriteException ''Endpoint must be a valid string''),
      requiredReads @
      [Log ''Signature verified successfully.'', Log ''Processing 2 messages.'',
       NewClient, EnvRead ''APPWRITE_ENDPOINT'', SetEndpoint None]) \<and>
   createCalls
     (snd (handler quietHost (exampleEnv(''APPWRITE_ENDPOINT'' := None)) (post bodyTwo))) = []"
proof -
  have two: "showNat (Suc (Suc 0)) = ''2''"
    by (simp add: showNat.simps)
  have run: "handler quietHost (exampleEnv(''APPWRITE_ENDPOINT'' := None)) (post bodyTwo) =
     (Thrown (AppwriteException ''Endpoint must be a valid string''),
      requiredReads @
      [Log ''Signature verified successfully.'', Log ''Processing 2 messages.'',
       NewClient, EnvRead ''APPWRITE_ENDPOINT'', SetEndpoint None])"
    by (simp add: handler_verified [OF unset_endpoint_configured post_signed(6)]
        classifier_def exampleParse_values persistenceWriter_def newDatabases_def
        sdkSetEndpoint_def two)
  have none: "createCalls
     (snd (handler quietHost (exampleEnv(''APPWRITE_ENDPOINT'' := None)) (post bodyTwo))) = []"
    by (simp add: run createCalls_append createCalls_requiredReads)
  from run none show ?thesis
    by (simp add: unset_endpoint_configured post_signed(6) exampleParse_values examples_plain)
qed

text \<open>
  Claim C3 says that in every batch a rejected write is caught and logged, that the
  messages after it are still attempted, and that the response is still 200. The
  \<^verbatim>\<open>catch\<close> block of line 90 prints \<^verbatim>\<open>message.device_id\<close> in a template literal, and
  nothing catches what it throws. In the batch below the first message has the device
  identifier \<^verbatim>\<open>{"toString":0}\<close> and the store rejects its write: the call is made, the
  conversion in the \<^verbatim>\<open>catch\<close> block throws a TypeError, the failure is not logged, no
  call is made for the second message, and the handler ends with the TypeError in place
  of a response. (The comment of line 91 says that processing continues when one message
  fails.) For batches of objects whose device identifier is a string or absent the claim
  holds, by \<open>plain_batch_failure_isolated\<close>.
\<close>

theorem unprintable_device_escapes:
  "JSON_parse exampleHost (body (post bodyOddDevice)) =
     Inr (JObj [(''messages'', JArr [messageOdd, messageTwo])]) \<and>
   createDocument exampleHost 0 ''iot'' ''telemetry'' ''unique()''
     (storedRecord exampleHost messageOdd) = Some ''Server Error'' \<and>
   handler exampleHost exampleEnv (post bodyOddDevice) =
     (Thrown (TypeError ''Cannot convert object to primitive value''),
      requiredReads @
      [Log ''Signature verified successfully.'', Log ''Processing 2 messages.''] @
      clientBuilt exampleEnv @
      [CreateDocument ''iot'' ''telemetry'' ''unique()'' (storedRecord exampleHost messageOdd)]) \<and>
   createCalls (snd (handler exampleHost exampleEnv (post bodyOddDevice))) =
     [(''iot'', ''telemetry'', ''unique()'', storedRecord exampleHost messageOdd)]"
proof -
  have two: "showNat (Suc (Suc 0)) = ''2''"
    by (simp add: showNat.simps)
  have first: "tryStore exampleHost ''iot'' ''telemetry'' 0 messageOdd =
      (Some (Rejected ''Server Error''),
       [CreateDocument ''iot'' ''telemetry'' ''unique()'' (storedRecord exampleHost messageOdd)])"
    by (simp add: tryStore_def messageOdd_def storedRecord_def)
  have caught: "catchStore exampleHost messageOdd (Rejected ''Server Error'') =
      (Some (TypeError ''Cannot convert object to primitive value''), [])"
    by (simp add: catchStore_def messageOdd_def orUnknown_def)
  have run: "handler exampleHost exampleEnv (post bodyOddDevice) =
     (Thrown (TypeError ''Cannot convert object to primitive value''),
      requiredReads @
      [Log ''Signature verified successfully.'', Log ''Processing 2 messages.''] @
      clientBuilt exampleEnv @
      [CreateDocument ''iot'' ''telemetry'' ''unique()'' (storedRecord exampleHost messageOdd)])"
    by (simp add: handler_verified [OF exampleEnv_configured post_signed(7)]
        classifier_def exampleParse_values persistenceWriter_def
        newDatabases_built [OF example_clientBuilds(1)] first caught two)
  have calls: "createCalls (snd (handler exampleHost exampleEnv (post bodyOddDevice))) =
     [(''iot'', ''telemetry'', ''unique()'', storedRecord exampleHost messageOdd)]"
    by (simp add: run createCalls_append createCalls_requiredReads createCalls_clientBuilt)
  from run calls show ?thesis
    by (simp add: exampleParse_values)
qed

subsection \<open>Claims about the classifier and the client\<close>

lemma getProp_field: "p \<noteq> JNull \<Longrightarrow> getProp p k = Inr (field p k)"
  by (cases p) simp_all

lemma verification_acknowledged:
  assumes "configured env secret db col" and "signed h secret req"
    and "JSON_parse h (body req) = Inr p"
    and "isVerification p"
    and "interpolate (Number_toString h) (field p ''token'') = Inr s"
  shows "handler h env req =
           (Sent ''Verification request acknowledged'' 200,
            requiredReads @
            [Log ''Signature verified successfully.'',
             Log (''Received verification request with token: '' @ s @
                  ''. Please confirm in nRF Cloud portal.'')])"
proof -
  from assms(4) have "p \<noteq> JNull" by (auto simp: isVerification_def)
  with assms(3,4,5) show ?thesis
    by (simp add: handler_verified [OF assms(1,2)] classifier_def getProp_field
        isVerification_def)
qed

lemma no_messages_no_write:
  assumes "configured env secret db col" and "signed h secret req"
    and "JSON_parse h (body req) = Inr p"
    and "p \<noteq> JNull" and "\<not> isVerification p" and "\<not> hasMessages p"
  shows "handler h env req =
           (Sent ''Webhook processing complete'' 200,
            requiredReads @
            [Log ''Signature verified successfully.'',
             Log ''Payload contains no messages or is of an unexpected format.''])"
  using assms(3-6)
  by (auto simp: handler_verified [OF assms(1,2)] classifier_def getProp_field
      isVerification_def hasMessages_def persistenceWriter_def
      split: option.splits json.splits)

text \<open>
  Where an exception leaves the handler: a payload that is \<^verbatim>\<open>null\<close>, a message that
  is \<^verbatim>\<open>null\<close> (the messages before it are attempted, those after it are not), a
  token or a device identifier that a template literal cannot print, and a setting of the
  client that the SDK refuses.
\<close>

lemma client_setting_throws:
  assumes "configured env secret db col" and "signed h secret req"
    and "JSON_parse h (body req) = Inr p"
    and "\<not> isVerification p"
    and "field p ''messages'' = Some (JArr ms)" and "ms \<noteq> []"
    and "newDatabases h env = (Some e, tc)"
  shows "handler h env req =
           (Thrown e,
            requiredReads @
            [Log ''Signature verified successfully.'',
             Log (''Processing '' @ showNat (length ms) @ '' messages.'')] @ tc) \<and>
         createCalls (snd (handler h env req)) = []"
proof -
  from assms(5) have "p \<noteq> JNull" by auto
  with assms(3-7) have run: "handler h env req =
           (Thrown e,
            requiredReads @
            [Log ''Signature verified successfully.'',
             Log (''Processing '' @ showNat (length ms) @ '' messages.'')] @ tc)"
    by (simp add: handler_verified [OF assms(1,2)] classifier_def getProp_field
        isVerification_def persistenceWriter_def)
  from createCalls_newDatabases [of h env] assms(7) have "createCalls tc = []"
    by simp
  with run show ?thesis
    by (simp add: createCalls_append createCalls_requiredReads)
qed

lemma null_payload_throws:
  assumes "configured env secret db col" and "signed h secret req"
    and "JSON_parse h (body req) = Inr JNull"
  shows "handler h env req =
           (Thrown (TypeError ''Cannot read properties of null''),
            requiredReads @ [Log ''Signature verified successfully.''])"
  using assms(3) by (simp add: handler_verified [OF assms(1,2)] classifier_def)

lemma forMessages_null:
  assumes "list_all plainMessage pre"
  shows "forMessages h db col i (pre @ JNull # rest) =
           (Some (TypeError ''Cannot read properties of null''),
            concat (map (\<lambda>(j, m). attempt h db col j m) (enumerate i pre)))"
  using assms
proof (induction pre arbitrary: i)
  case Nil
  then show ?case by (simp add: tryStore_def catchStore_def)
next
  case (Cons m pre)
  then have m: "plainMessage m" and pre: "list_all plainMessage pre" by simp_all
  show ?case
    by (simp add: tryStore_plain [OF m] catchStore_plain [OF m] Cons.IH [OF pre] attempt_def
        stored_def split: option.splits)
qed

lemma null_message_throws:
  assumes "configured env secret db col" and "signed h secret req"
    and "JSON_parse h (body req) = Inr p"
    and "\<not> isVerification p"
    and "field p ''messages'' = Some (JArr (pre @ JNull # rest))"
    and "list_all plainMessage pre"
    and "clientBuilds h env"
  shows "handler h env req =
           (Thrown (TypeError ''Cannot read properties of null''),
            requiredReads @
            [Log ''Signature verified successfully.'',
             Log (''Processing '' @ showNat (Suc (length pre + length rest)) @ '' messages.'')] @
            clientBuilt env @
            concat (map (\<lambda>(j, m). attempt h db col j m) (enumerate 0 pre)))"
proof -
  from assms(5) have "p \<noteq> JNull" by auto
  with assms(3,4,5) show ?thesis
    by (simp add: handler_verified [OF assms(1,2)] classifier_def getProp_field
        isVerification_def persistenceWriter_def newDatabases_built [OF assms(7)]
        forMessages_null [OF assms(6)])
qed

lemma unprintable_token_throws:
  assumes "configured env secret db col" and "signed h secret req"
    and "JSON_parse h (body req) = Inr p"
    and "isVerification p"
    and "interpolate (Number_toString h) (field p ''token'') = Inl e"
  shows "handler h env req = (Thrown e, requiredReads @ [Log ''Signature verified successfully.''])"
proof -
  from assms(4) have "p \<noteq> JNull" by (auto simp: isVerification_def)
  with assms(3,4,5) show ?thesis
    by (simp add: handler_verified [OF assms(1,2)] classifier_def getProp_field
        isVerification_def)
qed

lemma unprintable_truthy: "interpolate nts d = Inl e \<Longrightarrow> ToBoolean d"
proof (cases d)
  case None
  then show "interpolate nts d = Inl e \<Longrightarrow> ToBoolean d" by simp
next
  case (Some v)
  then show "interpolate nts d = Inl e \<Longrightarrow> ToBoolean d" by (cases v) simp_all
qed

lemma unprintable_device_throws:
  assumes "interpolate (Number_toString h) (field (JObj kvs) ''device_id'') = Inl e"
  shows "fst (forMessages h db col i (JObj kvs # rest)) = Some e"
proof -
  from unprintable_truthy [OF assms] have "ToBoolean (map_of kvs ''device_id'')"
    by simp
  with assms have c: "catchStore h (JObj kvs) x = (Some e, [])" for x
    by (simp add: catchStore_def orUnknown_def)
  obtain r t where t: "tryStore h db col i (JObj kvs) = (r, t)"
    by (cases "tryStore h db col i (JObj kvs)")
  with assms have "r \<noteq> None"
    by (auto simp: tryStore_def Let_def split: option.splits)
  with t c show ?thesis by (cases r) simp_all
qed

lemma classifier_in_table:
  "fst (classifier h env db col b) = Sent x s \<Longrightarrow> (x, s) \<in> set responseTable"
  by (auto simp: classifier_def persistenceWriter_def responseTable_def
      split: sum.splits if_splits option.splits json.splits prod.splits)

lemma sent_in_table:
  assumes "fst (handler h env req) = Sent x s"
  shows "(x, s) \<in> set responseTable"
proof (cases "passesGates h env req")
  case True
  then obtain secret db col where c: "configured env secret db col" and s: "signed h secret req"
    by (cases "env ''NRFCLOUD_WEBHOOK_SECRET''"; cases "env ''DATABASE_ID''";
        cases "env ''COLLECTION_ID''")
       (auto simp: passesGates_def configured_def signed_def)
  from assms have "fst (classifier h env db col (body req)) = Sent x s"
    by (simp add: handler_verified [OF c s] split: prod.splits)
  then show ?thesis by (rule classifier_in_table)
next
  case False
  with assms show ?thesis
    by (cases "env ''NRFCLOUD_WEBHOOK_SECRET''"; cases "headers req ''x-nrfcloud-signature''")
       (auto simp: handler_def passesGates_def responseTable_def Let_def
        split: prod.splits if_splits)
qed

text \<open>
  Claim C4 says that the handler ends with a response of the table on every input, and
  names a body that parses to \<^verbatim>\<open>null\<close> and an array of messages with an element that is
  no object. On both the handler ends with a TypeError that nothing catches: for the body
  \<^verbatim>\<open>null\<close> at the read of \<^verbatim>\<open>payload.event\<close> (line 49), which is outside any
  \<^verbatim>\<open>try\<close>; for the messages \<^verbatim>\<open>[null]\<close> at the read of \<^verbatim>\<open>message.device_id\<close> in the
  \<^verbatim>\<open>catch\<close> block (line 90), which handles the TypeError of line 69. Both requests are
  signed and pass the three checks before the parser. What does hold is \<open>sent_in_table\<close>:
  a response, when there is one, is a row of the table.
\<close>

theorem null_payload_escapes:
  "handler exampleHost exampleEnv (post bodyNull) =
     (Thrown (TypeError ''Cannot read properties of null''),
      requiredReads @ [Log ''Signature verified successfully.'']) \<and>
   handler exampleHost exampleEnv (post bodyNullMessage) =
     (Thrown (TypeError ''Cannot read properties of null''),
      requiredReads @
      [Log ''Signature verified successfully.'', Log ''Processing 1 messages.''] @
      clientBuilt exampleEnv)"
proof -
  have one: "showNat (Suc 0) = ''1''"
    by (simp add: showNat.simps)
  have parsed: "JSON_parse exampleHost (body (post bodyNullMessage)) =
                  Inr (JObj [(''messages'', JArr [JNull])])"
    by (simp add: exampleParse_values)
  have "handler exampleHost exampleEnv (post bodyNull) =
     (Thrown (TypeError ''Cannot read properties of null''),
      requiredReads @ [Log ''Signature verified successfully.''])"
    by (rule null_payload_throws [OF exampleEnv_configured post_signed(1)])
       (simp add: exampleParse_values)
  moreover have "handler exampleHost exampleEnv (post bodyNullMessage) =
     (Thrown (TypeError ''Cannot read properties of null''),
      requiredReads @
      [Log ''Signature verified successfully.'', Log ''Processing 1 messages.''] @
      clientBuilt exampleEnv)"
    using null_message_throws [OF exampleEnv_configured post_signed(5) parsed, of "[]" "[]"]
    by (simp add: isVerification_def one example_clientBuilds)
  ultimately show ?thesis by simp
qed

text \<open>
  Claim C6 lists \<^verbatim>\<open>null\<close> among the payloads that take the branch without messages.
  The body \<^verbatim>\<open>null\<close> parses to a payload that is no verification handshake and has no
  messages, and the handler does not respond 200 to it: it ends with the TypeError of
  line 49. For every other payload the claim holds, by \<open>no_messages_no_write\<close>.
\<close>

theorem null_payload_not_noop:
  "JSON_parse exampleHost (body (post bodyNull)) = Inr JNull \<and>
   \<not> isVerification JNull \<and> \<not> hasMessages JNull \<and>
   fst (handler exampleHost exampleEnv (post bodyNull)) \<noteq>
     Sent ''Webhook processing complete'' 200"
proof -
  have parsed: "JSON_parse exampleHost (body (post bodyNull)) = Inr JNull"
    by (simp add: exampleParse_values)
  from null_payload_throws [OF exampleEnv_configured post_signed(1) parsed] parsed
  show ?thesis
    by (simp add: isVerification_def hasMessages_def)
qed

text \<open>
  Claim C7 says that every signed verification handshake is acknowledged with 200. The
  log line of line 50 converts \<^verbatim>\<open>payload.token\<close> to a string, outside any \<^verbatim>\<open>try\<close>;
  for the token \<^verbatim>\<open>{"toString":0}\<close> the conversion throws a TypeError and the handler
  ends with it, without a response. For every token that can be printed the claim holds,
  by \<open>verification_acknowledged\<close>; in no case is a document created.
\<close>

theorem unprintable_token_escapes:
  "JSON_parse exampleHost (body (post bodyOddToken)) =
     Inr (JObj [(''event'', JStr ''verification''),
                (''token'', JObj [(''toString'', JNum (Finite 0))])]) \<and>
   isVerification (JObj [(''event'', JStr ''verification''),
                         (''token'', JObj [(''toString'', JNum (Finite 0))])]) \<and>
   handler exampleHost exampleEnv (post bodyOddToken) =
     (Thrown (TypeError ''Cannot convert object to primitive value''),
      requiredReads @ [Log ''Signature verified successfully.''])"
proof -
  have parsed: "JSON_parse exampleHost (body (post bodyOddToken)) =
     Inr (JObj [(''event'', JStr ''verification''),
                (''token'', JObj [(''toString'', JNum (Finite 0))])])"
    by (simp add: exampleParse_values)
  have handshake: "isVerification (JObj [(''event'', JStr ''verification''),
                         (''token'', JObj [(''toString'', JNum (Finite 0))])])"
    by (simp add: isVerification_def)
  have "handler exampleHost exampleEnv (post bodyOddToken) =
     (Thrown (TypeError ''Cannot convert object to primitive value''),
      requiredReads @ [Log ''Signature verified successfully.''])"
    by (rule unprintable_token_throws [OF exampleEnv_configured post_signed(3) parsed handshake])
       simp
  with parsed handshake show ?thesis by simp
qed

lemma tryStore_no_client: "\<not> list_ex clientEvent (snd (tryStore h db col i m))"
  by (auto simp: tryStore_def Let_def split: sum.splits option.splits)

lemma catchStore_no_client: "\<not> list_ex clientEvent (snd (catchStore h m e))"
  by (auto simp: catchStore_def split: sum.splits)

lemma forMessages_no_client: "\<not> list_ex clientEvent (snd (forMessages h db col i ms))"
proof (induction ms arbitrary: i)
  case Nil
  then show ?case by simp
next
  case (Cons m ms)
  obtain r t where t: "tryStore h db col i m = (r, t)" by (cases "tryStore h db col i m")
  obtain r' t' where f: "forMessages h db col (Suc i) ms = (r', t')"
    by (cases "forMessages h db col (Suc i) ms")
  from tryStore_no_client [of h db col i m] t have nt: "\<not> list_ex clientEvent t" by simp
  from Cons.IH [of "Suc i"] f have nf: "\<not> list_ex clientEvent t'" by simp
  show ?case
  proof (cases r)
    case None
    with t f nt nf show ?thesis by simp
  next
    case (Some e)
    obtain rc tc where c: "catchStore h m e = (rc, tc)" by (cases "catchStore h m e")
    from catchStore_no_client [of h m e] c have nc: "\<not> list_ex clientEvent tc" by simp
    from Some t f c nt nf nc show ?thesis by (cases rc) simp_all
  qed
qed

lemma newDatabases_client: "list_ex clientEvent (snd (newDatabases h env))"
  by (simp add: newDatabases_def split: option.splits)

lemma requiredReads_no_client: "\<not> list_ex clientEvent requiredReads"
  by (simp add: requiredReads_def)

lemma persistenceWriter_client:
  "list_ex clientEvent (snd (persistenceWriter h env db col v)) =
     (case v of Some (JArr ms) \<Rightarrow> ms \<noteq> [] | _ \<Rightarrow> False)"
proof (cases "\<exists>ms. v = Some (JArr ms) \<and> ms \<noteq> []")
  case True
  then obtain ms where v: "v = Some (JArr ms)" "ms \<noteq> []" by blast
  obtain rc tc where c: "newDatabases h env = (rc, tc)" by (cases "newDatabases h env")
  with newDatabases_client [of h env] have tc: "list_ex clientEvent tc" by simp
  from v c tc show ?thesis
    by (simp add: persistenceWriter_def split: prod.splits option.splits)
next
  case False
  then show ?thesis
    by (auto simp: persistenceWriter_def split: option.splits json.splits)
qed

lemma classifier_client:
  "list_ex clientEvent (snd (classifier h env db col b)) =
     (case JSON_parse h b of Inl m \<Rightarrow> False | Inr p \<Rightarrow> \<not> isVerification p \<and> hasMessages p)"
proof (cases "JSON_parse h b")
  case (Inl m)
  then show ?thesis by (simp add: classifier_def)
next
  case (Inr p)
  show ?thesis
  proof (cases "p = JNull")
    case True
    with Inr show ?thesis by (simp add: classifier_def hasMessages_def)
  next
    case False
    with Inr show ?thesis
      by (auto simp: classifier_def getProp_field isVerification_def hasMessages_def
          persistenceWriter_client split: sum.splits)
  qed
qed

text \<open>
  Claim C10. The effects of an invocation contain the construction of the database client,
  or a read of \<^verbatim>\<open>APPWRITE_ENDPOINT\<close>, \<^verbatim>\<open>APPWRITE_PROJECT_ID\<close> or \<^verbatim>\<open>APPWRITE_API_KEY\<close>,
  exactly when the request passes every check, its body parses, and the payload is no
  verification handshake and has a non-empty array of messages. Every other request,
  however the invocation ends, builds no client and reads none of the three variables.
\<close>

theorem client_built_only_for_messages:
  "list_ex clientEvent (snd (handler h env req)) = reachesWriter h env req"
proof (cases "passesGates h env req")
  case True
  then obtain secret db col where c: "configured env secret db col" and s: "signed h secret req"
    by (cases "env ''NRFCLOUD_WEBHOOK_SECRET''"; cases "env ''DATABASE_ID''";
        cases "env ''COLLECTION_ID''")
       (auto simp: passesGates_def configured_def signed_def)
  obtain r t where k: "classifier h env db col (body req) = (r, t)"
    by (cases "classifier h env db col (body req)")
  with classifier_client [of h env db col "body req"]
  have "list_ex clientEvent t =
          (case JSON_parse h (body req) of
             Inl m \<Rightarrow> False
           | Inr p \<Rightarrow> \<not> isVerification p \<and> hasMessages p)"
    by simp
  with True k show ?thesis
    by (simp add: handler_verified [OF c s] reachesWriter_def requiredReads_no_client)
next
  case False
  then have "\<not> list_ex clientEvent (snd (handler h env req))"
    by (cases "env ''NRFCLOUD_WEBHOOK_SECRET''"; cases "headers req ''x-nrfcloud-signature''")
       (auto simp: handler_def passesGates_def requiredReads_def Let_def split: prod.splits)
  with False show ?thesis by (simp add: reachesWriter_def)
qed

theorem client_built_only_for_messages_witness:
  "list_ex clientEvent (snd (handler exampleHost exampleEnv (post bodyTwo))) \<and>
   \<not> list_ex clientEvent (snd (handler exampleHost exampleEnv (post bodyVerification)))"
proof -
  have gates: "passesGates exampleHost exampleEnv (post b) = (exampleHmac ''s3cret'' b \<noteq> [])" for b
    by (auto simp: passesGates_def exampleEnv_def)
  have "reachesWriter exampleHost exampleEnv (post bodyTwo)"
    by (simp add: reachesWriter_def gates exampleHmac_values exampleParse_values
        isVerification_def hasMessages_def)
  moreover have "\<not> reachesWriter exampleHost exampleEnv (post bodyVerification)"
    by (simp add: reachesWriter_def gates exampleHmac_values exampleParse_values
        isVerification_def hasMessages_def)
  ultimately show ?thesis
    using client_built_only_for_messages [of exampleHost exampleEnv "post bodyTwo"]
      client_built_only_for_messages [of exampleHost exampleEnv "post bodyVerification"]
    by simp
qed


end
